theory Spec2Isabelle
  imports Main "HOL-Library.Word"
begin

section \<open>The Opus JNI bridge (opus_jni.cpp)\<close>

text \<open>
  The bridge is a set of native entry points around the Opus codec library: two that
  create a codec instance, two that transform a frame, two that destroy an instance (and
  a version query, which no property below concerns and which is left out). The library
  and the JNI environment are external. The library is a parameter of every function
  below, a record of response functions. Whatever the bridge does to its surroundings is
  kept in an explicit \<open>world\<close> that each entry point takes and returns: the calls made
  into the library, the log lines, the blocks obtained with \<^verbatim>\<open>new[]\<close> and not yet
  deleted, the Java arrays, and the arrays whose elements are currently held by native
  code. Allocation itself (\<^verbatim>\<open>new[]\<close>, \<^verbatim>\<open>NewByteArray\<close>,
  \<^verbatim>\<open>GetByteArrayElements\<close>) is taken to succeed.
\<close>

subsection \<open>Values\<close>

type_synonym byte = "8 word"
type_synonym int16_t = "16 word"
type_synonym jint = int
type_synonym jlong = "64 word"

text \<open>A pointer is its address; \<^verbatim>\<open>nullptr\<close> is address 0, and
  \<^verbatim>\<open>reinterpret_cast\<close> between a pointer and \<^verbatim>\<open>jlong\<close> keeps the address.\<close>

type_synonym pointer = "64 word"

text \<open>A \<^verbatim>\<open>jbyteArray\<close> is a reference to a Java array: its index in the Java heap.\<close>

type_synonym jbyteArray = nat

text \<open>Constants of opus_defines.h and jni.h that the source names.\<close>

definition OPUS_OK :: int where "OPUS_OK = 0"
definition OPUS_BAD_ARG :: int where "OPUS_BAD_ARG = - 1"
definition OPUS_BUFFER_TOO_SMALL :: int where "OPUS_BUFFER_TOO_SMALL = - 2"
definition OPUS_INVALID_PACKET :: int where "OPUS_INVALID_PACKET = - 4"
definition OPUS_ALLOC_FAIL :: int where "OPUS_ALLOC_FAIL = - 7"
definition OPUS_SIGNAL_VOICE :: int where "OPUS_SIGNAL_VOICE = 3001"
definition INT_MAX :: int where "INT_MAX = 2 ^ 31 - 1"

datatype release_mode = JNI_COPY_BACK | JNI_COMMIT | JNI_ABORT

text \<open>The requests the source builds with the \<^verbatim>\<open>OPUS_SET_*\<close> macros.\<close>

datatype ctl_request =
    OPUS_SET_BITRATE int
  | OPUS_SET_COMPLEXITY int
  | OPUS_SET_VBR int
  | OPUS_SET_DTX int
  | OPUS_SET_SIGNAL int
  | OPUS_SET_LSB_DEPTH int

subsection \<open>The library\<close>

text \<open>
  One event per call into the library, with the arguments the bridge passed. The two
  create events also carry what the library answered (error code and instance), since
  that answer decides which tokens exist.
\<close>

datatype lib_call =
    Encoder_create int int int int pointer
  | Decoder_create int int int pointer
  | Encoder_ctl pointer ctl_request
  | Encode pointer "byte list" int int
  | Decode pointer "byte list" int int int
  | Strerror int
  | Encoder_destroy pointer
  | Decoder_destroy pointer

text \<open>
  The library's answers. Each function sees the calls made so far, so an answer may
  depend on everything that happened to an instance before.
  \<^item> \<open>opus_encoder_create hist Fs channels application\<close> and
    \<open>opus_decoder_create hist Fs channels\<close> give the error code and the instance;
  \<^item> \<open>opus_encode hist st pcm frame_size max_data_bytes\<close> gives the return value and the
    bytes written to the output buffer, from its start; \<open>pcm\<close> is the memory the
    sample pointer points to;
  \<^item> \<open>opus_decode hist st data len frame_size decode_fec\<close> gives the return value and the
    samples written to the output buffer, from its start.
  The library takes the input of both transforms through a pointer to const: it produces
  output and leaves the input as it is.
\<close>

record opus_lib =
  opus_encoder_create :: "lib_call list \<Rightarrow> int \<Rightarrow> int \<Rightarrow> int \<Rightarrow> int \<times> pointer"
  opus_decoder_create :: "lib_call list \<Rightarrow> int \<Rightarrow> int \<Rightarrow> int \<times> pointer"
  opus_encode :: "lib_call list \<Rightarrow> pointer \<Rightarrow> byte list \<Rightarrow> int \<Rightarrow> int \<Rightarrow> int \<times> byte list"
  opus_decode :: "lib_call list \<Rightarrow> pointer \<Rightarrow> byte list \<Rightarrow> int \<Rightarrow> int \<Rightarrow> int \<Rightarrow> int \<times> int16_t list"

subsection \<open>The world\<close>

datatype log_priority = ANDROID_LOG_ERROR | ANDROID_LOG_INFO | ANDROID_LOG_DEBUG

record world =
  calls :: "lib_call list"
  logcat :: "(log_priority \<times> string) list"
  native_heap :: "nat list"
  next_block :: nat
  jheap :: "byte list list"
  pinned :: "jbyteArray list"

text \<open>
  What C++ leaves undefined is a fault of the model: a native entry point that reaches
  one stops there, and nothing is said about what follows.
\<close>

datatype fault =
    BadReference
  | ScratchOverrun
  | ScratchOverread
  | UninitialisedRead
  | SignedOverflow

text \<open>A block obtained with \<^verbatim>\<open>new T[n]\<close>: its identity, its capacity in elements, and
  the elements written so far (the block is not initialised).\<close>

record 'a block =
  block_id :: nat
  capacity :: nat
  filled :: "'a list"

subsection \<open>Logging\<close>

text \<open>A log line is its priority and its format string (in ASCII); the arguments of the
  format are not recorded.\<close>

definition android_log_print :: "log_priority \<Rightarrow> string \<Rightarrow> world \<Rightarrow> world" where
  "android_log_print prio msg w = w\<lparr>logcat := logcat w @ [(prio, msg)]\<rparr>"

definition LOGE :: "string \<Rightarrow> world \<Rightarrow> world" where
  "LOGE = android_log_print ANDROID_LOG_ERROR"

definition LOGI :: "string \<Rightarrow> world \<Rightarrow> world" where
  "LOGI = android_log_print ANDROID_LOG_INFO"

definition LOGD :: "string \<Rightarrow> world \<Rightarrow> world" where
  "LOGD = android_log_print ANDROID_LOG_DEBUG"

subsection \<open>Native memory and JNI primitives\<close>

definition called :: "lib_call \<Rightarrow> world \<Rightarrow> world" where
  "called c w = w\<lparr>calls := calls w @ [c]\<rparr>"

definition new_array :: "nat \<Rightarrow> world \<Rightarrow> 'a block \<times> world" where
  "new_array n w =
     (\<lparr>block_id = next_block w, capacity = n, filled = []\<rparr>,
      w\<lparr>native_heap := next_block w # native_heap w, next_block := Suc (next_block w)\<rparr>)"

definition delete_array :: "'a block \<Rightarrow> world \<Rightarrow> world" where
  "delete_array b w = w\<lparr>native_heap := remove1 (block_id b) (native_heap w)\<rparr>"

text \<open>The library writes \<open>xs\<close> from the start of the block; more than the block holds
  is a write past its end.\<close>

definition written :: "'a block \<Rightarrow> 'a list \<Rightarrow> 'a block option" where
  "written b xs = (if length xs > capacity b then None else Some (b\<lparr>filled := xs\<rparr>))"

text \<open>The bytes of a sample in memory; every Android ABI is little-endian.\<close>

definition short_bytes :: "int16_t \<Rightarrow> byte list" where
  "short_bytes s = [ucast s, ucast (drop_bit 8 s)]"

definition as_jbytes :: "int16_t block \<Rightarrow> byte block" where
  "as_jbytes b =
     \<lparr>block_id = block_id b, capacity = 2 * capacity b,
      filled = concat (map short_bytes (filled b))\<rparr>"

definition GetByteArrayElements :: "jbyteArray \<Rightarrow> world \<Rightarrow> (byte list \<times> world) option" where
  "GetByteArrayElements array w =
     (if array < length (jheap w)
      then Some (jheap w ! array, w\<lparr>pinned := array # pinned w\<rparr>)
      else None)"

definition ReleaseByteArrayElements ::
  "jbyteArray \<Rightarrow> byte list \<Rightarrow> release_mode \<Rightarrow> world \<Rightarrow> world" where
  "ReleaseByteArrayElements array elems mode w =
     (case mode of
        JNI_COPY_BACK \<Rightarrow>
          w\<lparr>jheap := (jheap w)[array := elems], pinned := remove1 array (pinned w)\<rparr>
      | JNI_COMMIT \<Rightarrow> w\<lparr>jheap := (jheap w)[array := elems]\<rparr>
      | JNI_ABORT \<Rightarrow> w\<lparr>pinned := remove1 array (pinned w)\<rparr>)"

text \<open>A new Java array is zero-filled; its reference is the next free index.\<close>

definition NewByteArray :: "jint \<Rightarrow> world \<Rightarrow> jbyteArray \<times> world" where
  "NewByteArray len w =
     (length (jheap w), w\<lparr>jheap := jheap w @ [replicate (nat len) 0]\<rparr>)"

text \<open>Copies \<open>len\<close> bytes from the start of the native block into the array at \<open>start\<close>.
  Reading more than the block holds, or bytes nobody wrote, is a fault.\<close>

definition SetByteArrayRegion ::
  "jbyteArray \<Rightarrow> nat \<Rightarrow> jint \<Rightarrow> byte block \<Rightarrow> world \<Rightarrow> fault + world" where
  "SetByteArrayRegion array start len buf w =
     (if nat len > capacity buf then Inl ScratchOverread
      else if nat len > length (filled buf) then Inl UninitialisedRead
      else Inr (w\<lparr>jheap := (jheap w)[array :=
             take start (jheap w ! array) @ take (nat len) (filled buf)
               @ drop (start + nat len) (jheap w ! array)]\<rparr>))"

subsection \<open>The native entry points\<close>

text \<open>
  Each function follows its source statement by statement; \<open>w\<close> is rebound where the
  source acts on its surroundings. The handle is used as the instance pointer unchanged.
  \<^verbatim>\<open>pcm_samples\<close> and the compression ratio of the encode path are computed for the
  log line only. The library is handed the array's elements as they are: how many
  samples \<^verbatim>\<open>opus_encode\<close> reads from them for the frame size it is given is the
  library's affair.
\<close>

definition max_encoded_size :: nat where "max_encoded_size = 1024"
definition max_frame_size :: nat where "max_frame_size = 1024"

definition Java_com_bitchat_android_audio_OpusCodec_nativeInitEncoder ::
  "opus_lib \<Rightarrow> jint \<Rightarrow> jint \<Rightarrow> jint \<Rightarrow> jint \<Rightarrow> jint \<Rightarrow> bool \<Rightarrow> bool \<Rightarrow> world \<Rightarrow> jlong \<times> world" where
  "Java_com_bitchat_android_audio_OpusCodec_nativeInitEncoder lib
       sample_rate channels application bitrate complexity vbr dtx w =
     (let w = LOGI ''Initializing Opus encoder:'' w;
          w = LOGI ''  Sample rate: %d Hz'' w;
          w = LOGI ''  Channels: %d'' w;
          w = LOGI ''  Application: %d'' w;
          w = LOGI ''  Bitrate: %d bps'' w;
          w = LOGI ''  Complexity: %d'' w;
          w = LOGI ''  VBR: %s'' w;
          w = LOGI ''  DTX: %s'' w;
          (error, encoder) = opus_encoder_create lib (calls w) sample_rate channels application;
          w = called (Encoder_create sample_rate channels application error encoder) w
      in if error \<noteq> OPUS_OK \<or> encoder = 0 then
           (0, LOGE ''Failed to create Opus encoder: %s'' (called (Strerror error) w))
         else
           let w = called (Encoder_ctl encoder (OPUS_SET_BITRATE bitrate)) w;
               w = called (Encoder_ctl encoder (OPUS_SET_COMPLEXITY complexity)) w;
               w = called (Encoder_ctl encoder (OPUS_SET_VBR (if vbr then 1 else 0))) w;
               w = called (Encoder_ctl encoder (OPUS_SET_DTX (if dtx then 1 else 0))) w;
               w = called (Encoder_ctl encoder (OPUS_SET_SIGNAL OPUS_SIGNAL_VOICE)) w;
               w = called (Encoder_ctl encoder (OPUS_SET_LSB_DEPTH 16)) w
           in (encoder, LOGI ''Opus encoder initialized successfully'' w))"

definition Java_com_bitchat_android_audio_OpusCodec_nativeInitDecoder ::
  "opus_lib \<Rightarrow> jint \<Rightarrow> jint \<Rightarrow> world \<Rightarrow> jlong \<times> world" where
  "Java_com_bitchat_android_audio_OpusCodec_nativeInitDecoder lib sample_rate channels w =
     (let w = LOGI ''Initializing Opus decoder:'' w;
          w = LOGI ''  Sample rate: %d Hz'' w;
          w = LOGI ''  Channels: %d'' w;
          (error, decoder) = opus_decoder_create lib (calls w) sample_rate channels;
          w = called (Decoder_create sample_rate channels error decoder) w
      in if error \<noteq> OPUS_OK \<or> decoder = 0 then
           (0, LOGE ''Failed to create Opus decoder: %s'' (called (Strerror error) w))
         else (decoder, LOGI ''Opus decoder initialized successfully'' w))"

definition Java_com_bitchat_android_audio_OpusCodec_nativeEncode ::
  "opus_lib \<Rightarrow> jlong \<Rightarrow> jbyteArray \<Rightarrow> jint \<Rightarrow> world \<Rightarrow> (fault + jbyteArray option) \<times> world" where
  "Java_com_bitchat_android_audio_OpusCodec_nativeEncode lib encoder_handle pcm_data frame_size w =
     (if encoder_handle = 0 then (Inr None, LOGE ''Encoder not initialized'' w)
      else
        case GetByteArrayElements pcm_data w of
          None \<Rightarrow> (Inl BadReference, w)
        | Some (pcm_bytes, w) \<Rightarrow>
            let (encoded_data, w) = new_array max_encoded_size w;
                (encoded_bytes, out) =
                   opus_encode lib (calls w) encoder_handle pcm_bytes frame_size
                     (int max_encoded_size);
                w = called (Encode encoder_handle pcm_bytes frame_size (int max_encoded_size)) w
            in case written encoded_data out of
                 None \<Rightarrow> (Inl ScratchOverrun, w)
               | Some encoded_data \<Rightarrow>
                   let w = ReleaseByteArrayElements pcm_data pcm_bytes JNI_ABORT w in
                   if encoded_bytes < 0 then
                     let w = LOGE ''Opus encoding failed: %s'' (called (Strerror encoded_bytes) w);
                         w = delete_array encoded_data w
                     in (Inr None, w)
                   else
                     let w = LOGD ''Encoded %d samples -> %d bytes (%.1f%% compression)'' w;
                         (result, w) = NewByteArray encoded_bytes w
                     in case SetByteArrayRegion result 0 encoded_bytes encoded_data w of
                          Inl f \<Rightarrow> (Inl f, w)
                        | Inr w \<Rightarrow> (Inr (Some result), delete_array encoded_data w))"

definition Java_com_bitchat_android_audio_OpusCodec_nativeDecode ::
  "opus_lib \<Rightarrow> jlong \<Rightarrow> jbyteArray \<Rightarrow> jint \<Rightarrow> world \<Rightarrow> (fault + jbyteArray option) \<times> world" where
  "Java_com_bitchat_android_audio_OpusCodec_nativeDecode lib decoder_handle opus_data frame_size w =
     (if decoder_handle = 0 then (Inr None, LOGE ''Decoder not initialized'' w)
      else
        case GetByteArrayElements opus_data w of
          None \<Rightarrow> (Inl BadReference, w)
        | Some (opus_bytes, w) \<Rightarrow>
            let opus_length = int (length opus_bytes);
                (pcm_data, w) = new_array max_frame_size w;
                (decoded_samples, out) =
                   opus_decode lib (calls w) decoder_handle opus_bytes opus_length frame_size 0;
                w = called (Decode decoder_handle opus_bytes opus_length frame_size 0) w
            in case written pcm_data out of
                 None \<Rightarrow> (Inl ScratchOverrun, w)
               | Some pcm_data \<Rightarrow>
                   let w = ReleaseByteArrayElements opus_data opus_bytes JNI_ABORT w in
                   if decoded_samples < 0 then
                     let w = LOGE ''Opus decoding failed: %s'' (called (Strerror decoded_samples) w);
                         w = delete_array pcm_data w
                     in (Inr None, w)
                   else
                     let w = LOGD ''Decoded %d bytes -> %d samples'' w;
                         pcm_bytes_count = decoded_samples * 2
                     in if pcm_bytes_count > INT_MAX then (Inl SignedOverflow, w)
                        else
                          let (result, w) = NewByteArray pcm_bytes_count w
                          in case SetByteArrayRegion result 0 pcm_bytes_count (as_jbytes pcm_data) w of
                               Inl f \<Rightarrow> (Inl f, w)
                             | Inr w \<Rightarrow> (Inr (Some result), delete_array pcm_data w))"

definition Java_com_bitchat_android_audio_OpusCodec_nativeReleaseEncoder ::
  "jlong \<Rightarrow> world \<Rightarrow> world" where
  "Java_com_bitchat_android_audio_OpusCodec_nativeReleaseEncoder encoder_handle w =
     (if encoder_handle \<noteq> 0
      then LOGI ''Opus encoder released'' (called (Encoder_destroy encoder_handle) w)
      else w)"

definition Java_com_bitchat_android_audio_OpusCodec_nativeReleaseDecoder ::
  "jlong \<Rightarrow> world \<Rightarrow> world" where
  "Java_com_bitchat_android_audio_OpusCodec_nativeReleaseDecoder decoder_handle w =
     (if decoder_handle \<noteq> 0
      then LOGI ''Opus decoder released'' (called (Decoder_destroy decoder_handle) w)
      else w)"

abbreviation "nativeInitEncoder \<equiv> Java_com_bitchat_android_audio_OpusCodec_nativeInitEncoder"
abbreviation "nativeInitDecoder \<equiv> Java_com_bitchat_android_audio_OpusCodec_nativeInitDecoder"
abbreviation "nativeEncode \<equiv> Java_com_bitchat_android_audio_OpusCodec_nativeEncode"
abbreviation "nativeDecode \<equiv> Java_com_bitchat_android_audio_OpusCodec_nativeDecode"
abbreviation "nativeReleaseEncoder \<equiv> Java_com_bitchat_android_audio_OpusCodec_nativeReleaseEncoder"
abbreviation "nativeReleaseDecoder \<equiv> Java_com_bitchat_android_audio_OpusCodec_nativeReleaseDecoder"

subsection \<open>Tokens and call sequences\<close>

text \<open>
  The tokens the bridge has handed out and not been asked to release, read off the
  calls in order: a create call puts its instance on the list exactly when the bridge
  returns it as a token (no error and not \<^verbatim>\<open>nullptr\<close>), a destroy call takes its
  argument off.
\<close>

fun track :: "pointer list \<Rightarrow> lib_call \<Rightarrow> pointer list" where
  "track live (Encoder_create Fs channels application error st) =
     (if error \<noteq> OPUS_OK \<or> st = 0 then live else st # live)"
| "track live (Decoder_create Fs channels error st) =
     (if error \<noteq> OPUS_OK \<or> st = 0 then live else st # live)"
| "track live (Encoder_destroy st) = removeAll st live"
| "track live (Decoder_destroy st) = removeAll st live"
| "track live _ = live"

definition live_tokens :: "lib_call list \<Rightarrow> pointer list" where
  "live_tokens cs = foldl track [] cs"

text \<open>What an allocator guarantees: an instance the library creates is not at the
  address of one that is still alive.\<close>

definition allocator_fresh :: "opus_lib \<Rightarrow> bool" where
  "allocator_fresh lib \<longleftrightarrow>
     (\<forall>hist Fs channels application.
        snd (opus_encoder_create lib hist Fs channels application) \<notin> set (live_tokens hist))
     \<and> (\<forall>hist Fs channels.
        snd (opus_decoder_create lib hist Fs channels) \<notin> set (live_tokens hist))"

text \<open>The calls a managed caller can make, and a sequence of them run in order. A call
  that faults ends the run.\<close>

datatype api_call =
    InitEncoder jint jint jint jint jint bool bool
  | InitDecoder jint jint
  | EncodeFrame jlong jbyteArray jint
  | DecodeFrame jlong jbyteArray jint
  | ReleaseEncoder jlong
  | ReleaseDecoder jlong

fun api :: "opus_lib \<Rightarrow> api_call \<Rightarrow> world \<Rightarrow> bool \<times> world" where
  "api lib (InitEncoder sample_rate channels application bitrate complexity vbr dtx) w =
     (True, snd (Java_com_bitchat_android_audio_OpusCodec_nativeInitEncoder lib
        sample_rate channels application bitrate complexity vbr dtx w))"
| "api lib (InitDecoder sample_rate channels) w =
     (True, snd (Java_com_bitchat_android_audio_OpusCodec_nativeInitDecoder lib
        sample_rate channels w))"
| "api lib (EncodeFrame h a frame_size) w =
     (case Java_com_bitchat_android_audio_OpusCodec_nativeEncode lib h a frame_size w of
        (Inl f, w') \<Rightarrow> (False, w') | (Inr r, w') \<Rightarrow> (True, w'))"
| "api lib (DecodeFrame h a frame_size) w =
     (case Java_com_bitchat_android_audio_OpusCodec_nativeDecode lib h a frame_size w of
        (Inl f, w') \<Rightarrow> (False, w') | (Inr r, w') \<Rightarrow> (True, w'))"
| "api lib (ReleaseEncoder h) w =
     (True, Java_com_bitchat_android_audio_OpusCodec_nativeReleaseEncoder h w)"
| "api lib (ReleaseDecoder h) w =
     (True, Java_com_bitchat_android_audio_OpusCodec_nativeReleaseDecoder h w)"

fun run :: "opus_lib \<Rightarrow> api_call list \<Rightarrow> world \<Rightarrow> world" where
  "run lib [] w = w"
| "run lib (c # cs) w =
     (case api lib c w of (True, w') \<Rightarrow> run lib cs w' | (False, w') \<Rightarrow> w')"

definition world0 :: world where
  "world0 = \<lparr>calls = [], logcat = [], native_heap = [], next_block = 0, jheap = [],
     pinned = []\<rparr>"

subsection \<open>A stand-in for the library\<close>

text \<open>
  The theorems below hold for every library. To run the bridge on concrete inputs a
  library is needed, and \<open>stub_lib\<close> is a small one that keeps to the documented
  interface of Opus: create refuses a channel count other than 1 or 2 and otherwise
  returns a fresh address; a packet records the frame size it was encoded from; decode
  refuses a frame size smaller than the packet's, writes \<open>samples \<times> channels\<close>
  interleaved samples of silence and returns the number of samples per channel.
\<close>

fun session_channels :: "lib_call list \<Rightarrow> pointer \<Rightarrow> int option" where
  "session_channels [] st = None"
| "session_channels (Decoder_create Fs channels error p # cs) st =
     (case session_channels cs st of
        Some c \<Rightarrow> Some c
      | None \<Rightarrow> if p = st \<and> error = OPUS_OK then Some channels else None)"
| "session_channels (c # cs) st = session_channels cs st"

definition stub_alloc :: "lib_call list \<Rightarrow> int \<times> pointer" where
  "stub_alloc hist =
     (let p = 4096 + 64 * of_nat (length hist)
      in if p = 0 \<or> p \<in> set (live_tokens hist) then (OPUS_ALLOC_FAIL, 0) else (OPUS_OK, p))"

definition stub_lib :: opus_lib where
  "stub_lib =
     \<lparr>opus_encoder_create = (\<lambda>hist Fs channels application.
        if channels = 1 \<or> channels = 2 then stub_alloc hist else (OPUS_BAD_ARG, 0)),
      opus_decoder_create = (\<lambda>hist Fs channels.
        if channels = 1 \<or> channels = 2 then stub_alloc hist else (OPUS_BAD_ARG, 0)),
      opus_encode = (\<lambda>hist st pcm frame_size max_data_bytes.
        if frame_size \<le> 0 \<or> 65536 \<le> frame_size then (OPUS_BAD_ARG, [])
        else if max_data_bytes < 2 then (OPUS_BUFFER_TOO_SMALL, [])
        else (2, [of_int (frame_size mod 256), of_int (frame_size div 256)])),
      opus_decode = (\<lambda>hist st data len frame_size decode_fec.
        case (session_channels hist st, data) of
          (Some channels, [lo, hi]) \<Rightarrow>
            let n = uint lo + 256 * uint hi
            in if frame_size < n then (OPUS_BUFFER_TOO_SMALL, [])
               else (n, replicate (nat (n * channels)) 0)
        | _ \<Rightarrow> (OPUS_INVALID_PACKET, []))\<rparr>"

text \<open>
  The round trip of a silent frame: one encoder and one decoder created with the same
  sample rate and channel count, a frame of \<open>F\<close> samples per channel of zeros encoded,
  and the packet decoded with the same frame size. The value is the decoded PCM array,
  or \<open>None\<close> when a step fails.
\<close>

definition silent_roundtrip :: "opus_lib \<Rightarrow> jint \<Rightarrow> jint \<Rightarrow> jint \<Rightarrow> byte list option" where
  "silent_roundtrip lib sample_rate channels F =
     (let w = world0\<lparr>jheap := [replicate (nat (F * channels * 2)) 0]\<rparr>;
          (enc, w) = Java_com_bitchat_android_audio_OpusCodec_nativeInitEncoder lib
             sample_rate channels 2048 16000 5 False True w;
          (dec, w) = Java_com_bitchat_android_audio_OpusCodec_nativeInitDecoder lib
             sample_rate channels w
      in case Java_com_bitchat_android_audio_OpusCodec_nativeEncode lib enc 0 F w of
           (Inr (Some packet), w) \<Rightarrow>
             (case Java_com_bitchat_android_audio_OpusCodec_nativeDecode lib dec packet F w of
                (Inr (Some pcm), w) \<Rightarrow> Some (jheap w ! pcm)
              | _ \<Rightarrow> None)
         | _ \<Rightarrow> None)"

text \<open>
  A world to run the bridge in: a mono encoder (token 4096) and a mono decoder (token
  4544) at 16 kHz, both created through the bridge. Array 0 is a silent frame of 160
  samples (320 bytes), array 1 a packet of 160 samples, array 2 a packet of 1920 samples
  (120 ms, the longest Opus packet at this rate).
\<close>

definition demo_world :: world where
  "demo_world =
     run stub_lib [InitEncoder 16000 1 2048 16000 5 False True, InitDecoder 16000 1]
       (world0\<lparr>jheap := [replicate 320 0, [160, 0], [128, 7]]\<rparr>)"

text \<open>
  A stereo world: an encoder (token 4096) and a decoder (token 4544) at 16 kHz with two
  channels, created through the bridge, and the silent frame of 160 samples per channel
  (array 0, 640 bytes) already encoded with frame size 160: array 1 is its packet.
\<close>

definition stereo_world :: world where
  "stereo_world =
     run stub_lib
       [InitEncoder 16000 2 2048 16000 5 False True, InitDecoder 16000 2,
        EncodeFrame 4096 0 160]
       (world0\<lparr>jheap := [replicate (160 * 2 * 2) 0]\<rparr>)"

section \<open>Facts about the entry points\<close>

lemmas nativeEncode_def = Java_com_bitchat_android_audio_OpusCodec_nativeEncode_def
lemmas nativeDecode_def = Java_com_bitchat_android_audio_OpusCodec_nativeDecode_def
lemmas nativeInitEncoder_def = Java_com_bitchat_android_audio_OpusCodec_nativeInitEncoder_def
lemmas nativeInitDecoder_def = Java_com_bitchat_android_audio_OpusCodec_nativeInitDecoder_def
lemmas nativeReleaseEncoder_def = Java_com_bitchat_android_audio_OpusCodec_nativeReleaseEncoder_def
lemmas nativeReleaseDecoder_def = Java_com_bitchat_android_audio_OpusCodec_nativeReleaseDecoder_def

lemmas prims = LOGE_def LOGI_def LOGD_def android_log_print_def called_def new_array_def
  delete_array_def written_def GetByteArrayElements_def ReleaseByteArrayElements_def
  NewByteArray_def SetByteArrayRegion_def

lemma length_short_bytes: "length (concat (map short_bytes xs)) = 2 * length xs"
  by (induction xs) (simp_all add: short_bytes_def)

lemma nativeEncode_eq:
  assumes "h \<noteq> 0" and "a < length (jheap w)"
    and "opus_encode lib (calls w) h (jheap w ! a) fs (int max_encoded_size) = (n, out)"
  shows "nativeEncode lib h a fs w =
    (let w1 = w\<lparr>calls := calls w @ [Encode h (jheap w ! a) fs (int max_encoded_size)],
                 native_heap := next_block w # native_heap w,
                 next_block := Suc (next_block w),
                 pinned := a # pinned w\<rparr>;
         w2 = w1\<lparr>pinned := pinned w\<rparr>;
         w3 = w2\<lparr>logcat := logcat w @ [(ANDROID_LOG_DEBUG,
                    ''Encoded %d samples -> %d bytes (%.1f%% compression)'')],
                 jheap := jheap w @ [replicate (nat n) 0]\<rparr>
     in if max_encoded_size < length out then (Inl ScratchOverrun, w1)
        else if n < 0 then
          (Inr None, w2\<lparr>calls := calls w1 @ [Strerror n],
                        logcat := logcat w @ [(ANDROID_LOG_ERROR, ''Opus encoding failed: %s'')],
                        native_heap := native_heap w\<rparr>)
        else if max_encoded_size < nat n then (Inl ScratchOverread, w3)
        else if length out < nat n then (Inl UninitialisedRead, w3)
        else (Inr (Some (length (jheap w))),
              w3\<lparr>jheap := jheap w @ [take (nat n) out], native_heap := native_heap w\<rparr>))"
  using assms
  by (simp add: nativeEncode_def prims Let_def)

lemma nativeDecode_eq:
  assumes "h \<noteq> 0" and "a < length (jheap w)"
    and "opus_decode lib (calls w) h (jheap w ! a) (int (length (jheap w ! a))) fs 0 = (n, out)"
  shows "nativeDecode lib h a fs w =
    (let w1 = w\<lparr>calls := calls w @ [Decode h (jheap w ! a) (int (length (jheap w ! a))) fs 0],
                 native_heap := next_block w # native_heap w,
                 next_block := Suc (next_block w),
                 pinned := a # pinned w\<rparr>;
         w2 = w1\<lparr>pinned := pinned w\<rparr>;
         w3 = w2\<lparr>logcat := logcat w @ [(ANDROID_LOG_DEBUG, ''Decoded %d bytes -> %d samples'')]\<rparr>;
         w4 = w3\<lparr>jheap := jheap w @ [replicate (nat (n * 2)) 0]\<rparr>
     in if max_frame_size < length out then (Inl ScratchOverrun, w1)
        else if n < 0 then
          (Inr None, w2\<lparr>calls := calls w1 @ [Strerror n],
                        logcat := logcat w @ [(ANDROID_LOG_ERROR, ''Opus decoding failed: %s'')],
                        native_heap := native_heap w\<rparr>)
        else if INT_MAX < n * 2 then (Inl SignedOverflow, w3)
        else if 2 * max_frame_size < nat (n * 2) then (Inl ScratchOverread, w4)
        else if 2 * length out < nat (n * 2) then (Inl UninitialisedRead, w4)
        else (Inr (Some (length (jheap w))),
              w4\<lparr>jheap := jheap w @ [take (nat (n * 2)) (concat (map short_bytes out))],
                  native_heap := native_heap w\<rparr>))"
  using assms
  by (simp add: nativeDecode_def prims Let_def as_jbytes_def length_short_bytes)

lemma nativeEncode_bad_reference:
  "h \<noteq> 0 \<Longrightarrow> \<not> a < length (jheap w) \<Longrightarrow> nativeEncode lib h a fs w = (Inl BadReference, w)"
  by (simp add: nativeEncode_def GetByteArrayElements_def)

lemma nativeDecode_bad_reference:
  "h \<noteq> 0 \<Longrightarrow> \<not> a < length (jheap w) \<Longrightarrow> nativeDecode lib h a fs w = (Inl BadReference, w)"
  by (simp add: nativeDecode_def GetByteArrayElements_def)

lemma nativeEncode_sentinel:
  "nativeEncode lib 0 a fs w = (Inr None, LOGE ''Encoder not initialized'' w)"
  by (simp add: nativeEncode_def)

lemma nativeDecode_sentinel:
  "nativeDecode lib 0 a fs w = (Inr None, LOGE ''Decoder not initialized'' w)"
  by (simp add: nativeDecode_def)

lemma encode_released:
  assumes "nativeEncode lib h a fs w = (Inr r, w')"
  shows "native_heap w' = native_heap w \<and> (h \<noteq> 0 \<longrightarrow> next_block w' = Suc (next_block w))"
proof (cases "h = 0")
  case True
  with assms show ?thesis by (auto simp: nativeEncode_sentinel LOGE_def android_log_print_def)
next
  case h: False
  show ?thesis
  proof (cases "a < length (jheap w)")
    case False
    with h assms show ?thesis by (simp add: nativeEncode_bad_reference)
  next
    case True
    obtain n out where
      "opus_encode lib (calls w) h (jheap w ! a) fs (int max_encoded_size) = (n, out)"
      by (cases "opus_encode lib (calls w) h (jheap w ! a) fs (int max_encoded_size)")
    from nativeEncode_eq [OF h True this] assms h show ?thesis
      by (auto simp: Let_def split: if_splits)
  qed
qed


lemma decode_released:
  assumes "nativeDecode lib h a fs w = (Inr r, w')"
  shows "native_heap w' = native_heap w \<and> (h \<noteq> 0 \<longrightarrow> next_block w' = Suc (next_block w))"
proof (cases "h = 0")
  case True
  with assms show ?thesis by (auto simp: nativeDecode_sentinel LOGE_def android_log_print_def)
next
  case h: False
  show ?thesis
  proof (cases "a < length (jheap w)")
    case False
    with h assms show ?thesis by (simp add: nativeDecode_bad_reference)
  next
    case True
    obtain n out where
      "opus_decode lib (calls w) h (jheap w ! a) (int (length (jheap w ! a))) fs 0 = (n, out)"
      by (cases "opus_decode lib (calls w) h (jheap w ! a) (int (length (jheap w ! a))) fs 0")
    from nativeDecode_eq [OF h True this] assms h show ?thesis
      by (auto simp: Let_def split: if_splits)
  qed
qed

lemma encode_jheap:
  "take (length (jheap w)) (jheap (snd (nativeEncode lib h a fs w))) = jheap w"
proof (cases "h = 0")
  case True
  then show ?thesis by (simp add: nativeEncode_sentinel LOGE_def android_log_print_def)
next
  case h: False
  show ?thesis
  proof (cases "a < length (jheap w)")
    case False
    with h show ?thesis by (simp add: nativeEncode_bad_reference)
  next
    case True
    obtain n out where
      "opus_encode lib (calls w) h (jheap w ! a) fs (int max_encoded_size) = (n, out)"
      by (cases "opus_encode lib (calls w) h (jheap w ! a) fs (int max_encoded_size)")
    from nativeEncode_eq [OF h True this] show ?thesis
      by (simp add: Let_def)
  qed
qed

lemma decode_jheap:
  "take (length (jheap w)) (jheap (snd (nativeDecode lib h a fs w))) = jheap w"
proof (cases "h = 0")
  case True
  then show ?thesis by (simp add: nativeDecode_sentinel LOGE_def android_log_print_def)
next
  case h: False
  show ?thesis
  proof (cases "a < length (jheap w)")
    case False
    with h show ?thesis by (simp add: nativeDecode_bad_reference)
  next
    case True
    obtain n out where
      "opus_decode lib (calls w) h (jheap w ! a) (int (length (jheap w ! a))) fs 0 = (n, out)"
      by (cases "opus_decode lib (calls w) h (jheap w ! a) (int (length (jheap w ! a))) fs 0")
    from nativeDecode_eq [OF h True this] show ?thesis
      by (simp add: Let_def)
  qed
qed

lemma encode_pinned:
  assumes "nativeEncode lib h a fs w = (Inr r, w')"
  shows "pinned w' = pinned w"
proof (cases "h = 0")
  case True
  with assms show ?thesis by (auto simp: nativeEncode_sentinel LOGE_def android_log_print_def)
next
  case h: False
  show ?thesis
  proof (cases "a < length (jheap w)")
    case False
    with h assms show ?thesis by (simp add: nativeEncode_bad_reference)
  next
    case True
    obtain n out where
      "opus_encode lib (calls w) h (jheap w ! a) fs (int max_encoded_size) = (n, out)"
      by (cases "opus_encode lib (calls w) h (jheap w ! a) fs (int max_encoded_size)")
    from nativeEncode_eq [OF h True this] assms h show ?thesis
      by (auto simp: Let_def split: if_splits)
  qed
qed

lemma decode_pinned:
  assumes "nativeDecode lib h a fs w = (Inr r, w')"
  shows "pinned w' = pinned w"
proof (cases "h = 0")
  case True
  with assms show ?thesis by (auto simp: nativeDecode_sentinel LOGE_def android_log_print_def)
next
  case h: False
  show ?thesis
  proof (cases "a < length (jheap w)")
    case False
    with h assms show ?thesis by (simp add: nativeDecode_bad_reference)
  next
    case True
    obtain n out where
      "opus_decode lib (calls w) h (jheap w ! a) (int (length (jheap w ! a))) fs 0 = (n, out)"
      by (cases "opus_decode lib (calls w) h (jheap w ! a) (int (length (jheap w ! a))) fs 0")
    from nativeDecode_eq [OF h True this] assms h show ?thesis
      by (auto simp: Let_def split: if_splits)
  qed
qed

text \<open>The calls an encode or decode adds: none for the sentinel or a bad reference,
  otherwise the transform call, followed by \<open>Strerror\<close> when it failed.\<close>

lemma encode_calls:
  assumes "h \<noteq> 0" and "a < length (jheap w)"
  shows "\<exists>rest. calls (snd (nativeEncode lib h a fs w))
           = calls w @ Encode h (jheap w ! a) fs (int max_encoded_size) # rest
         \<and> (rest = [] \<or> (\<exists>n. rest = [Strerror n]))"
proof -
  obtain n out where
    "opus_encode lib (calls w) h (jheap w ! a) fs (int max_encoded_size) = (n, out)"
    by (cases "opus_encode lib (calls w) h (jheap w ! a) fs (int max_encoded_size)")
  from nativeEncode_eq [OF assms this] show ?thesis
    by (simp add: Let_def)
qed

lemma decode_calls:
  assumes "h \<noteq> 0" and "a < length (jheap w)"
  shows "\<exists>rest. calls (snd (nativeDecode lib h a fs w))
           = calls w @ Decode h (jheap w ! a) (int (length (jheap w ! a))) fs 0 # rest
         \<and> (rest = [] \<or> (\<exists>n. rest = [Strerror n]))"
proof -
  obtain n out where
    "opus_decode lib (calls w) h (jheap w ! a) (int (length (jheap w ! a))) fs 0 = (n, out)"
    by (cases "opus_decode lib (calls w) h (jheap w ! a) (int (length (jheap w ! a))) fs 0")
  from nativeDecode_eq [OF assms this] show ?thesis
    by (simp add: Let_def)
qed

lemma live_tokens_snoc: "live_tokens (cs @ [c]) = track (live_tokens cs) c"
  by (simp add: live_tokens_def)

lemma live_tokens_snoc_Cons: "live_tokens (cs @ c # ds) = foldl track (track (live_tokens cs) c) ds"
  by (simp add: live_tokens_def)

lemma zero_not_tracked: "0 \<notin> set live \<Longrightarrow> 0 \<notin> set (foldl track live cs)"
proof (induction cs arbitrary: live)
  case Nil
  then show ?case by simp
next
  case (Cons c cs)
  have "0 \<notin> set (track live c)"
    using Cons.prems by (cases c) auto
  then show ?case using Cons.IH by simp
qed

lemma zero_not_live: "0 \<notin> set (live_tokens cs)"
  by (simp add: live_tokens_def zero_not_tracked)

lemma stub_lib_fresh: "allocator_fresh stub_lib"
  by (simp add: allocator_fresh_def stub_lib_def stub_alloc_def Let_def zero_not_live)

lemma init_encoder_result:
  assumes "opus_encoder_create lib (calls w) Fs ch app = (error, enc)"
  shows "fst (nativeInitEncoder lib Fs ch app br cx vbr dtx w)
           = (if error \<noteq> OPUS_OK \<or> enc = 0 then 0 else enc)"
    and "calls (snd (nativeInitEncoder lib Fs ch app br cx vbr dtx w))
           = calls w @ Encoder_create Fs ch app error enc #
               (if error \<noteq> OPUS_OK \<or> enc = 0 then [Strerror error]
                else [Encoder_ctl enc (OPUS_SET_BITRATE br),
                      Encoder_ctl enc (OPUS_SET_COMPLEXITY cx),
                      Encoder_ctl enc (OPUS_SET_VBR (if vbr then 1 else 0)),
                      Encoder_ctl enc (OPUS_SET_DTX (if dtx then 1 else 0)),
                      Encoder_ctl enc (OPUS_SET_SIGNAL OPUS_SIGNAL_VOICE),
                      Encoder_ctl enc (OPUS_SET_LSB_DEPTH 16)])"
    and "native_heap (snd (nativeInitEncoder lib Fs ch app br cx vbr dtx w)) = native_heap w"
    and "jheap (snd (nativeInitEncoder lib Fs ch app br cx vbr dtx w)) = jheap w"
  using assms by (simp_all add: nativeInitEncoder_def prims Let_def)

lemma init_decoder_result:
  assumes "opus_decoder_create lib (calls w) Fs ch = (error, dec)"
  shows "fst (nativeInitDecoder lib Fs ch w) = (if error \<noteq> OPUS_OK \<or> dec = 0 then 0 else dec)"
    and "calls (snd (nativeInitDecoder lib Fs ch w))
           = calls w @ Decoder_create Fs ch error dec #
               (if error \<noteq> OPUS_OK \<or> dec = 0 then [Strerror error] else [])"
    and "native_heap (snd (nativeInitDecoder lib Fs ch w)) = native_heap w"
    and "jheap (snd (nativeInitDecoder lib Fs ch w)) = jheap w"
  using assms by (simp_all add: nativeInitDecoder_def prims Let_def)

lemma encode_within_ceiling:
  assumes "nativeEncode lib h a fs w = (Inr (Some r), w')"
  shows "length (jheap w' ! r) \<le> max_encoded_size"
proof -
  have h: "h \<noteq> 0" using assms by (auto simp: nativeEncode_sentinel)
  have a: "a < length (jheap w)"
    using assms h by (cases "a < length (jheap w)") (auto simp: nativeEncode_bad_reference)
  obtain n out where
    "opus_encode lib (calls w) h (jheap w ! a) fs (int max_encoded_size) = (n, out)"
    by (cases "opus_encode lib (calls w) h (jheap w ! a) fs (int max_encoded_size)")
  from nativeEncode_eq [OF h a this] assms show ?thesis
    by (auto simp: Let_def split: if_splits)
qed

lemma snd_api_cases:
  "snd (api lib (EncodeFrame h a fs) w) = snd (nativeEncode lib h a fs w)"
  "snd (api lib (DecodeFrame h a fs) w) = snd (nativeDecode lib h a fs w)"
  by (simp_all split: prod.splits sum.splits)

lemma encode_live: "live_tokens (calls (snd (nativeEncode lib h a fs w))) = live_tokens (calls w)"
proof (cases "h \<noteq> 0 \<and> a < length (jheap w)")
  case True
  then obtain rest where
    "calls (snd (nativeEncode lib h a fs w))
       = calls w @ Encode h (jheap w ! a) fs (int max_encoded_size) # rest"
    and "rest = [] \<or> (\<exists>n. rest = [Strerror n])"
    using encode_calls [of h a w lib fs] by blast
  then show ?thesis by (auto simp: live_tokens_snoc_Cons)
next
  case False
  then show ?thesis
    by (cases "h = 0")
      (auto simp: nativeEncode_sentinel nativeEncode_bad_reference LOGE_def android_log_print_def)
qed

lemma decode_live: "live_tokens (calls (snd (nativeDecode lib h a fs w))) = live_tokens (calls w)"
proof (cases "h \<noteq> 0 \<and> a < length (jheap w)")
  case True
  then obtain rest where
    "calls (snd (nativeDecode lib h a fs w))
       = calls w @ Decode h (jheap w ! a) (int (length (jheap w ! a))) fs 0 # rest"
    and "rest = [] \<or> (\<exists>n. rest = [Strerror n])"
    using decode_calls [of h a w lib fs] by blast
  then show ?thesis by (auto simp: live_tokens_snoc_Cons)
next
  case False
  then show ?thesis
    by (cases "h = 0")
      (auto simp: nativeDecode_sentinel nativeDecode_bad_reference LOGE_def android_log_print_def)
qed

lemma init_encoder_live:
  "live_tokens (calls (snd (nativeInitEncoder lib Fs ch app br cx vbr dtx w)))
     = (if fst (nativeInitEncoder lib Fs ch app br cx vbr dtx w) = 0 then live_tokens (calls w)
        else fst (nativeInitEncoder lib Fs ch app br cx vbr dtx w) # live_tokens (calls w))"
proof -
  obtain error enc where c: "opus_encoder_create lib (calls w) Fs ch app = (error, enc)"
    by (cases "opus_encoder_create lib (calls w) Fs ch app")
  show ?thesis
    by (simp add: init_encoder_result [OF c] live_tokens_snoc_Cons)
qed

lemma init_decoder_live:
  "live_tokens (calls (snd (nativeInitDecoder lib Fs ch w)))
     = (if fst (nativeInitDecoder lib Fs ch w) = 0 then live_tokens (calls w)
        else fst (nativeInitDecoder lib Fs ch w) # live_tokens (calls w))"
proof -
  obtain error dec where c: "opus_decoder_create lib (calls w) Fs ch = (error, dec)"
    by (cases "opus_decoder_create lib (calls w) Fs ch")
  show ?thesis
    by (simp add: init_decoder_result [OF c] live_tokens_snoc_Cons)
qed

lemma init_encoder_fresh:
  assumes "allocator_fresh lib"
  shows "fst (nativeInitEncoder lib Fs ch app br cx vbr dtx w) \<notin> set (live_tokens (calls w))"
proof -
  obtain error enc where c: "opus_encoder_create lib (calls w) Fs ch app = (error, enc)"
    by (cases "opus_encoder_create lib (calls w) Fs ch app")
  have "snd (opus_encoder_create lib (calls w) Fs ch app) \<notin> set (live_tokens (calls w))"
    using assms unfolding allocator_fresh_def by blast
  then have "enc \<notin> set (live_tokens (calls w))"
    by (simp add: c)
  then show ?thesis
    by (simp add: init_encoder_result [OF c] zero_not_live)
qed

lemma init_decoder_fresh:
  assumes "allocator_fresh lib"
  shows "fst (nativeInitDecoder lib Fs ch w) \<notin> set (live_tokens (calls w))"
proof -
  obtain error dec where c: "opus_decoder_create lib (calls w) Fs ch = (error, dec)"
    by (cases "opus_decoder_create lib (calls w) Fs ch")
  have "snd (opus_decoder_create lib (calls w) Fs ch) \<notin> set (live_tokens (calls w))"
    using assms unfolding allocator_fresh_def by blast
  then have "dec \<notin> set (live_tokens (calls w))"
    by (simp add: c)
  then show ?thesis
    by (simp add: init_decoder_result [OF c] zero_not_live)
qed

lemma release_live:
  "live_tokens (calls (nativeReleaseEncoder h w)) = removeAll h (live_tokens (calls w))"
  "live_tokens (calls (nativeReleaseDecoder h w)) = removeAll h (live_tokens (calls w))"
  using zero_not_live [of "calls w"]
  by (simp_all add: nativeReleaseEncoder_def nativeReleaseDecoder_def prims live_tokens_snoc)

lemma api_live_distinct:
  assumes "allocator_fresh lib" and "distinct (live_tokens (calls w))"
  shows "distinct (live_tokens (calls (snd (api lib c w))))"
proof (cases c)
  case (InitEncoder Fs ch app br cx vbr dtx)
  with assms(2) init_encoder_fresh [OF assms(1), of Fs ch app br cx vbr dtx w]
  show ?thesis by (simp add: init_encoder_live)
next
  case (InitDecoder Fs ch)
  with assms(2) init_decoder_fresh [OF assms(1), of Fs ch w]
  show ?thesis by (simp add: init_decoder_live)
next
  case (EncodeFrame h a fs)
  with assms(2) show ?thesis by (simp only: snd_api_cases encode_live)
next
  case (DecodeFrame h a fs)
  with assms(2) show ?thesis by (simp only: snd_api_cases decode_live)
next
  case (ReleaseEncoder h)
  with assms(2) show ?thesis by (simp add: release_live distinct_removeAll)
next
  case (ReleaseDecoder h)
  with assms(2) show ?thesis by (simp add: release_live distinct_removeAll)
qed

lemma run_live_distinct:
  assumes "allocator_fresh lib"
  shows "distinct (live_tokens (calls w)) \<Longrightarrow> distinct (live_tokens (calls (run lib cs w)))"
proof (induction cs arbitrary: w)
  case Nil
  then show ?case by simp
next
  case (Cons c cs)
  obtain ok w' where step: "api lib c w = (ok, w')"
    by (cases "api lib c w")
  have d: "distinct (live_tokens (calls w'))"
    using api_live_distinct [OF assms Cons.prems, of c] step by simp
  show ?case
  proof (cases ok)
    case True
    with step Cons.IH [OF d] show ?thesis by simp
  next
    case False
    with step d show ?thesis by simp
  qed
qed

section \<open>Properties\<close>

text \<open>
  C2. Encode and decode with token 0 return an absent result and make no call into the
  library: the world after the call is the world before it plus one error log line, so
  the list of library calls is the same.
\<close>

theorem sentinel_token_rejected:
  "nativeEncode lib 0 pcm_data frame_size w = (Inr None, LOGE ''Encoder not initialized'' w)
   \<and> nativeDecode lib 0 opus_data frame_size w = (Inr None, LOGE ''Decoder not initialized'' w)
   \<and> calls (snd (nativeEncode lib 0 pcm_data frame_size w)) = calls w
   \<and> calls (snd (nativeDecode lib 0 opus_data frame_size w)) = calls w"
  by (simp add: nativeEncode_def nativeDecode_def LOGE_def android_log_print_def)

text \<open>
  C4. Whenever encode or decode returns (with a result or with an absent result), the
  blocks obtained with \<^verbatim>\<open>new[]\<close> and not deleted are the ones there were before the
  call; and for a nonzero token exactly one block was obtained in between, so the scratch
  buffer of the call has been deleted on the success path and on the failure path alike.
\<close>

theorem scratch_released:
  "(nativeEncode lib h a fs w = (Inr r, w') \<longrightarrow>
      native_heap w' = native_heap w \<and> (h \<noteq> 0 \<longrightarrow> next_block w' = Suc (next_block w)))
   \<and> (nativeDecode lib h a fs w = (Inr r, w') \<longrightarrow>
      native_heap w' = native_heap w \<and> (h \<noteq> 0 \<longrightarrow> next_block w' = Suc (next_block w)))"
  using encode_released [of lib h a fs w r w'] decode_released [of lib h a fs w r w']
  by blast

text \<open>The success path of encode and the failure path of decode (a frame size smaller
  than the packet's) in the demo world.\<close>

theorem scratch_released_witness:
  "native_heap (snd (nativeEncode stub_lib 4096 0 160 demo_world)) = native_heap demo_world
   \<and> next_block (snd (nativeEncode stub_lib 4096 0 160 demo_world)) = Suc (next_block demo_world)
   \<and> native_heap (snd (nativeDecode stub_lib 4544 1 80 demo_world)) = native_heap demo_world
   \<and> next_block (snd (nativeDecode stub_lib 4544 1 80 demo_world)) = Suc (next_block demo_world)"
proof -
  have e: "fst (nativeEncode stub_lib 4096 0 160 demo_world) = Inr (Some 3)"
    by code_simp
  have d: "fst (nativeDecode stub_lib 4544 1 80 demo_world) = Inr None"
    by code_simp
  show ?thesis
    using e d
      scratch_released [of stub_lib 4096 0 160 demo_world "Some 3"
        "snd (nativeEncode stub_lib 4096 0 160 demo_world)"]
      scratch_released [of stub_lib 4544 1 80 demo_world None
        "snd (nativeDecode stub_lib 4544 1 80 demo_world)"]
    by (simp add: prod_eq_iff)
qed

text \<open>
  C8. For a nonzero token (and an array the caller really holds) the next call into the
  library is the transform itself, whatever the earlier calls were: in particular whether
  or not the token is one the bridge handed out and has not released. The call gets the
  caller's frame size as it is, whatever the length of the array.
\<close>

theorem only_sentinel_validated:
  assumes "h \<noteq> 0" and "a < length (jheap w)"
  shows "take (Suc (length (calls w))) (calls (snd (nativeEncode lib h a fs w)))
           = calls w @ [Encode h (jheap w ! a) fs (int max_encoded_size)]
       \<and> take (Suc (length (calls w))) (calls (snd (nativeDecode lib h a fs w)))
           = calls w @ [Decode h (jheap w ! a) (int (length (jheap w ! a))) fs 0]"
  using encode_calls [OF assms, of lib fs] decode_calls [OF assms, of lib fs]
  by auto

text \<open>A token no init call ever returned, and a frame size unrelated to the array.\<close>

theorem only_sentinel_validated_witness:
  "take (Suc (length (calls demo_world)))
     (calls (snd (nativeEncode stub_lib 12345 0 999 demo_world)))
     = calls demo_world @ [Encode 12345 (jheap demo_world ! 0) 999 (int max_encoded_size)]
   \<and> take (Suc (length (calls demo_world)))
     (calls (snd (nativeDecode stub_lib 12345 0 999 demo_world)))
     = calls demo_world
         @ [Decode 12345 (jheap demo_world ! 0) (int (length (jheap demo_world ! 0))) 999 0]
   \<and> 12345 \<notin> set (live_tokens (calls demo_world))"
proof -
  have h: "(12345 :: jlong) \<noteq> 0"
    by simp
  have a: "0 < length (jheap demo_world)"
    by code_simp
  have n: "12345 \<notin> set (live_tokens (calls demo_world))"
    by code_simp
  show ?thesis
    using only_sentinel_validated [OF h a, of stub_lib 999] n by simp
qed

text \<open>
  C10. On every exit of encode and decode, faults included, every Java array that
  existed before the call (the input array among them) has the contents it had; when the
  call returns, no array is left held by native code; and releasing with
  \<^verbatim>\<open>JNI_ABORT\<close> leaves the Java heap as it is whatever the native copy holds.
\<close>

theorem input_array_unchanged:
  "take (length (jheap w)) (jheap (snd (nativeEncode lib h a fs w))) = jheap w
   \<and> take (length (jheap w)) (jheap (snd (nativeDecode lib h a fs w))) = jheap w
   \<and> (nativeEncode lib h a fs w = (Inr r, w') \<longrightarrow> pinned w' = pinned w)
   \<and> (nativeDecode lib h a fs w = (Inr r, w') \<longrightarrow> pinned w' = pinned w)
   \<and> jheap (ReleaseByteArrayElements a elems JNI_ABORT w) = jheap w"
  using encode_pinned [of lib h a fs w r w'] decode_pinned [of lib h a fs w r w']
  by (simp add: encode_jheap decode_jheap ReleaseByteArrayElements_def)

text \<open>An encode and a decode that succeed in the demo world.\<close>

theorem input_array_unchanged_witness:
  "take (length (jheap demo_world)) (jheap (snd (nativeEncode stub_lib 4096 0 160 demo_world)))
     = jheap demo_world
   \<and> take (length (jheap demo_world)) (jheap (snd (nativeDecode stub_lib 4544 1 160 demo_world)))
     = jheap demo_world
   \<and> pinned (snd (nativeEncode stub_lib 4096 0 160 demo_world)) = pinned demo_world
   \<and> pinned (snd (nativeDecode stub_lib 4544 1 160 demo_world)) = pinned demo_world"
proof -
  have e: "fst (nativeEncode stub_lib 4096 0 160 demo_world) = Inr (Some 3)"
    by code_simp
  have d: "fst (nativeDecode stub_lib 4544 1 160 demo_world) = Inr (Some 3)"
    by code_simp
  show ?thesis
    using e d
      input_array_unchanged [of demo_world stub_lib 4096 0 160 "Some 3"
        "snd (nativeEncode stub_lib 4096 0 160 demo_world)"]
      input_array_unchanged [of demo_world stub_lib 4544 1 160 "Some 3"
        "snd (nativeDecode stub_lib 4544 1 160 demo_world)"]
    by (simp add: prod_eq_iff)
qed

text \<open>
  C5. With \<open>(error, enc)\<close> the library's answer to the create call: when the library
  reports an error or gives no instance, createEncoder returns 0 after the create call
  and the lookup of the error text, and nothing else; otherwise it returns the instance
  as the token, which is not 0, after exactly the six settings bitrate, complexity, VBR,
  DTX, voice signal and 16-bit depth, in this order. createDecoder returns 0 or the
  instance in the same way and makes no other call on success. Both are total functions
  with a token as their value: there is no outcome other than returning one.
\<close>

theorem init_contract:
  assumes "opus_encoder_create lib (calls w) Fs ch app = (error, enc)"
    and "opus_decoder_create lib (calls w) Fs ch = (derror, dec)"
  shows "(error \<noteq> OPUS_OK \<or> enc = 0 \<longrightarrow>
            fst (nativeInitEncoder lib Fs ch app br cx vbr dtx w) = 0
          \<and> calls (snd (nativeInitEncoder lib Fs ch app br cx vbr dtx w))
              = calls w @ [Encoder_create Fs ch app error enc, Strerror error])
       \<and> (error = OPUS_OK \<and> enc \<noteq> 0 \<longrightarrow>
            fst (nativeInitEncoder lib Fs ch app br cx vbr dtx w) = enc
          \<and> fst (nativeInitEncoder lib Fs ch app br cx vbr dtx w) \<noteq> 0
          \<and> calls (snd (nativeInitEncoder lib Fs ch app br cx vbr dtx w))
              = calls w @ [Encoder_create Fs ch app error enc,
                  Encoder_ctl enc (OPUS_SET_BITRATE br),
                  Encoder_ctl enc (OPUS_SET_COMPLEXITY cx),
                  Encoder_ctl enc (OPUS_SET_VBR (if vbr then 1 else 0)),
                  Encoder_ctl enc (OPUS_SET_DTX (if dtx then 1 else 0)),
                  Encoder_ctl enc (OPUS_SET_SIGNAL OPUS_SIGNAL_VOICE),
                  Encoder_ctl enc (OPUS_SET_LSB_DEPTH 16)])
       \<and> (derror \<noteq> OPUS_OK \<or> dec = 0 \<longrightarrow>
            fst (nativeInitDecoder lib Fs ch w) = 0
          \<and> calls (snd (nativeInitDecoder lib Fs ch w))
              = calls w @ [Decoder_create Fs ch derror dec, Strerror derror])
       \<and> (derror = OPUS_OK \<and> dec \<noteq> 0 \<longrightarrow>
            fst (nativeInitDecoder lib Fs ch w) = dec
          \<and> fst (nativeInitDecoder lib Fs ch w) \<noteq> 0
          \<and> calls (snd (nativeInitDecoder lib Fs ch w))
              = calls w @ [Decoder_create Fs ch derror dec])"
  by (simp add: init_encoder_result [OF assms(1)] init_decoder_result [OF assms(2)])

text \<open>Creation that succeeds (one channel) and creation the library refuses (three
  channels).\<close>

theorem init_contract_witness:
  "fst (nativeInitEncoder stub_lib 16000 1 2048 16000 5 False True world0) = 4096
   \<and> calls (snd (nativeInitEncoder stub_lib 16000 1 2048 16000 5 False True world0))
       = [Encoder_create 16000 1 2048 OPUS_OK 4096,
          Encoder_ctl 4096 (OPUS_SET_BITRATE 16000),
          Encoder_ctl 4096 (OPUS_SET_COMPLEXITY 5),
          Encoder_ctl 4096 (OPUS_SET_VBR 0),
          Encoder_ctl 4096 (OPUS_SET_DTX 1),
          Encoder_ctl 4096 (OPUS_SET_SIGNAL OPUS_SIGNAL_VOICE),
          Encoder_ctl 4096 (OPUS_SET_LSB_DEPTH 16)]
   \<and> fst (nativeInitDecoder stub_lib 16000 1 world0) = 4096
   \<and> calls (snd (nativeInitDecoder stub_lib 16000 1 world0))
       = [Decoder_create 16000 1 OPUS_OK 4096]
   \<and> fst (nativeInitEncoder stub_lib 16000 3 2048 16000 5 False True world0) = 0
   \<and> calls (snd (nativeInitEncoder stub_lib 16000 3 2048 16000 5 False True world0))
       = [Encoder_create 16000 3 2048 OPUS_BAD_ARG 0, Strerror OPUS_BAD_ARG]
   \<and> fst (nativeInitDecoder stub_lib 16000 3 world0) = 0
   \<and> calls (snd (nativeInitDecoder stub_lib 16000 3 world0))
       = [Decoder_create 16000 3 OPUS_BAD_ARG 0, Strerror OPUS_BAD_ARG]"
proof -
  have c: "calls world0 = []"
    by (simp add: world0_def)
  have e1: "opus_encoder_create stub_lib (calls world0) 16000 1 2048 = (OPUS_OK, 4096)"
    and d1: "opus_decoder_create stub_lib (calls world0) 16000 1 = (OPUS_OK, 4096)"
    and e3: "opus_encoder_create stub_lib (calls world0) 16000 3 2048 = (OPUS_BAD_ARG, 0)"
    and d3: "opus_decoder_create stub_lib (calls world0) 16000 3 = (OPUS_BAD_ARG, 0)"
    by code_simp+
  have ok: "OPUS_BAD_ARG \<noteq> OPUS_OK"
    by (simp add: OPUS_BAD_ARG_def OPUS_OK_def)
  show ?thesis
    using init_contract [OF e1 d1, of 16000 5 False True]
      init_contract [OF e3 d3, of 16000 5 False True] ok
    by (simp add: c)
qed

text \<open>
  C7. Release with token 0 leaves the world as it is (no library call, nothing logged).
  Release with a nonzero token has made the destroy call on that instance when it
  returns, and the token is then no longer among the live ones.
\<close>

theorem release_contract:
  "nativeReleaseEncoder 0 w = w
   \<and> nativeReleaseDecoder 0 w = w
   \<and> (h \<noteq> 0 \<longrightarrow> calls (nativeReleaseEncoder h w) = calls w @ [Encoder_destroy h]
        \<and> h \<notin> set (live_tokens (calls (nativeReleaseEncoder h w))))
   \<and> (h \<noteq> 0 \<longrightarrow> calls (nativeReleaseDecoder h w) = calls w @ [Decoder_destroy h]
        \<and> h \<notin> set (live_tokens (calls (nativeReleaseDecoder h w))))"
  by (simp add: nativeReleaseEncoder_def nativeReleaseDecoder_def prims live_tokens_snoc)

text \<open>Releasing the two tokens of the demo world.\<close>

theorem release_contract_witness:
  "nativeReleaseEncoder 0 demo_world = demo_world
   \<and> nativeReleaseDecoder 0 demo_world = demo_world
   \<and> calls (nativeReleaseEncoder 4096 demo_world) = calls demo_world @ [Encoder_destroy 4096]
   \<and> 4096 \<notin> set (live_tokens (calls (nativeReleaseEncoder 4096 demo_world)))
   \<and> calls (nativeReleaseDecoder 4544 demo_world) = calls demo_world @ [Decoder_destroy 4544]
   \<and> 4544 \<notin> set (live_tokens (calls (nativeReleaseDecoder 4544 demo_world)))
   \<and> live_tokens (calls demo_world) = [4544, 4096]"
proof -
  have l: "live_tokens (calls demo_world) = [4544, 4096]"
    by code_simp
  have e: "(4096 :: jlong) \<noteq> 0" and d: "(4544 :: jlong) \<noteq> 0"
    by simp_all
  show ?thesis
    using release_contract [of demo_world 4096] release_contract [of demo_world 4544] l e d
    by blast
qed

text \<open>
  C6. With \<open>(n, out)\<close> the library's answer to the encode call, for a library that
  stays inside the output buffer it was given and writes the bytes it reports: when
  \<open>n\<close> is not negative the call returns a new array holding exactly the first \<open>n\<close>
  bytes written, and when \<open>n\<close> is negative it returns an absent result and creates no
  Java array.
\<close>

theorem encode_result_exact:
  assumes "h \<noteq> 0" and "a < length (jheap w)"
    and "opus_encode lib (calls w) h (jheap w ! a) fs (int max_encoded_size) = (n, out)"
    and "length out \<le> max_encoded_size"
    and "0 \<le> n \<longrightarrow> nat n \<le> length out"
  shows "(0 \<le> n \<longrightarrow>
            fst (nativeEncode lib h a fs w) = Inr (Some (length (jheap w)))
          \<and> jheap (snd (nativeEncode lib h a fs w)) = jheap w @ [take (nat n) out]
          \<and> int (length (jheap (snd (nativeEncode lib h a fs w)) ! length (jheap w))) = n)
       \<and> (n < 0 \<longrightarrow>
            fst (nativeEncode lib h a fs w) = Inr None
          \<and> jheap (snd (nativeEncode lib h a fs w)) = jheap w)"
  using assms(4,5) nativeEncode_eq [OF assms(1,2,3)]
  by (auto simp: Let_def)

text \<open>A frame the library encodes to two bytes, and a frame size it refuses.\<close>

theorem encode_result_exact_witness:
  "fst (nativeEncode stub_lib 4096 0 160 demo_world) = Inr (Some 3)
   \<and> jheap (snd (nativeEncode stub_lib 4096 0 160 demo_world)) = jheap demo_world @ [[160, 0]]
   \<and> fst (nativeEncode stub_lib 4096 0 0 demo_world) = Inr None
   \<and> jheap (snd (nativeEncode stub_lib 4096 0 0 demo_world)) = jheap demo_world"
proof -
  have h: "(4096 :: jlong) \<noteq> 0"
    by simp
  have a: "0 < length (jheap demo_world)" and l: "length (jheap demo_world) = 3"
    by code_simp+
  have r1: "opus_encode stub_lib (calls demo_world) 4096 (jheap demo_world ! 0) 160
              (int max_encoded_size) = (2, [160, 0])"
    and r2: "opus_encode stub_lib (calls demo_world) 4096 (jheap demo_world ! 0) 0
              (int max_encoded_size) = (OPUS_BAD_ARG, [])"
    by code_simp+
  show ?thesis
    using encode_result_exact [OF h a r1] encode_result_exact [OF h a r2] l
    by (simp add: max_encoded_size_def OPUS_BAD_ARG_def)
qed

text \<open>
  C3. The decode call is given the caller's frame size as the space available in the
  scratch buffer, not the 1024 samples the buffer holds. So when the library writes more
  than 1024 samples, which the bound it was given allows as soon as the frame size times
  the channel count exceeds 1024, the write runs past the end of the scratch buffer: the
  bridge does not keep the library inside it.
\<close>

theorem decode_overruns_scratch:
  assumes "h \<noteq> 0" and "a < length (jheap w)"
    and "opus_decode lib (calls w) h (jheap w ! a) (int (length (jheap w ! a))) fs 0 = (n, out)"
    and "max_frame_size < length out"
  shows "fst (nativeDecode lib h a fs w) = Inl ScratchOverrun
       \<and> calls (snd (nativeDecode lib h a fs w))
           = calls w @ [Decode h (jheap w ! a) (int (length (jheap w ! a))) fs 0]"
  using assms(4) nativeDecode_eq [OF assms(1,2,3)]
  by (simp add: Let_def)

text \<open>The failing input: the decoder of the demo world, the packet of 1920 samples and
  frame size 1920. The library stays within the 1920 samples it was told it may write.\<close>

theorem decode_overruns_scratch_witness:
  "fst (nativeDecode stub_lib 4544 2 1920 demo_world) = Inl ScratchOverrun
   \<and> jheap demo_world ! 2 = [128, 7]
   \<and> opus_decode stub_lib (calls demo_world) 4544 [128, 7] 2 1920 0 = (1920, replicate 1920 0)
   \<and> max_frame_size = 1024"
proof -
  have h: "(4544 :: jlong) \<noteq> 0"
    by simp
  have a: "2 < length (jheap demo_world)" and p: "jheap demo_world ! 2 = [128, 7]"
    by code_simp+
  have r: "opus_decode stub_lib (calls demo_world) 4544 (jheap demo_world ! 2)
             (int (length (jheap demo_world ! 2))) 1920 0 = (1920, replicate 1920 0)"
    by code_simp
  have m: "max_frame_size < length (replicate 1920 (0 :: int16_t))"
    by (simp add: max_frame_size_def)
  show ?thesis
    using decode_overruns_scratch [OF h a r m] p r
    by (simp add: max_frame_size_def)
qed

text \<open>
  C1. With \<open>(n, out)\<close> the library's answer to the decode call, for a library that
  reports \<open>n\<close> samples per channel and writes the \<open>n \<times> channels\<close> interleaved samples
  inside the scratch buffer: decode returns a new array of exactly \<open>2 \<times> n\<close> bytes, the
  first \<open>2 \<times> n\<close> bytes of what was written. That is two bytes for each sample the
  library reports, as the claim says of decode; but the channel count is missing from
  the product, so for two channels the array is shorter than the \<open>n \<times> channels \<times> 2\<close>
  bytes of the frame and the round trip of a frame of \<open>F\<close> samples does not give
  \<open>F \<times> channels \<times> 2\<close> bytes back.
\<close>

theorem decode_drops_channels:
  assumes "h \<noteq> 0" and "a < length (jheap w)"
    and "opus_decode lib (calls w) h (jheap w ! a) (int (length (jheap w ! a))) fs 0 = (n, out)"
    and "0 \<le> n" and "0 < channels"
    and "length out = nat n * channels"
    and "length out \<le> max_frame_size"
  shows "fst (nativeDecode lib h a fs w) = Inr (Some (length (jheap w)))
       \<and> jheap (snd (nativeDecode lib h a fs w))
           = jheap w @ [take (nat n * 2) (concat (map short_bytes out))]
       \<and> length (jheap (snd (nativeDecode lib h a fs w)) ! length (jheap w)) = nat n * 2
       \<and> (1 < channels \<and> 0 < n \<longrightarrow>
            length (jheap (snd (nativeDecode lib h a fs w)) ! length (jheap w))
              < nat n * channels * 2)"
proof -
  have le: "nat n \<le> length out"
    using assms(5,6) by simp
  then have small: "nat n \<le> 1024"
    using assms(7) by (simp add: max_frame_size_def)
  then have no_overflow: "\<not> INT_MAX < n * 2"
    by (simp add: INT_MAX_def)
  have len: "length (take (nat n * 2) (concat (map short_bytes out))) = nat n * 2"
    using le by (simp add: length_short_bytes)
  have eq: "nativeDecode lib h a fs w =
      (Inr (Some (length (jheap w))),
       w\<lparr>calls := calls w @ [Decode h (jheap w ! a) (int (length (jheap w ! a))) fs 0],
          native_heap := native_heap w,
          next_block := Suc (next_block w),
          pinned := pinned w,
          logcat := logcat w @ [(ANDROID_LOG_DEBUG, ''Decoded %d bytes -> %d samples'')],
          jheap := jheap w @ [take (nat n * 2) (concat (map short_bytes out))]\<rparr>)"
    using nativeDecode_eq [OF assms(1,2,3)] assms(4,7) le small no_overflow
    by (simp add: Let_def max_frame_size_def nat_mult_distrib)
  have more: "1 < channels \<and> 0 < n \<longrightarrow> nat n * 2 < nat n * channels * 2"
    by auto
  show ?thesis
    using len more by (simp add: eq)
qed

text \<open>The failing input: the round trip of the silent frame through the stereo session.
  The frame has 640 bytes, the decoded array 320.\<close>

theorem decode_drops_channels_witness:
  "length (jheap stereo_world ! 0) = 160 * 2 * 2
   \<and> jheap stereo_world ! 1 = [160, 0]
   \<and> opus_decode stub_lib (calls stereo_world) 4544 [160, 0] 2 160 0 = (160, replicate 320 0)
   \<and> fst (nativeDecode stub_lib 4544 1 160 stereo_world) = Inr (Some 2)
   \<and> length (jheap (snd (nativeDecode stub_lib 4544 1 160 stereo_world)) ! 2) = 160 * 2
   \<and> map_option length (silent_roundtrip stub_lib 16000 2 160) = Some (160 * 2)
   \<and> map_option length (silent_roundtrip stub_lib 16000 2 160) \<noteq> Some (160 * 2 * 2)"
proof -
  have h: "(4544 :: jlong) \<noteq> 0"
    by simp
  have a: "1 < length (jheap stereo_world)" and l: "length (jheap stereo_world) = 2"
    and f: "length (jheap stereo_world ! 0) = 160 * 2 * 2"
    and p: "jheap stereo_world ! 1 = [160, 0]"
    by code_simp+
  have r: "opus_decode stub_lib (calls stereo_world) 4544 (jheap stereo_world ! 1)
             (int (length (jheap stereo_world ! 1))) 160 0 = (160, replicate 320 0)"
    by code_simp
  have n: "(0 :: int) \<le> 160" and c: "(0 :: nat) < 2"
    and o: "length (replicate 320 (0 :: int16_t)) = nat 160 * 2"
    and m: "length (replicate 320 (0 :: int16_t)) \<le> max_frame_size"
    by (simp_all add: max_frame_size_def)
  have t: "map_option length (silent_roundtrip stub_lib 16000 2 160) = Some (160 * 2)"
    by code_simp
  have u: "map_option length (silent_roundtrip stub_lib 16000 2 160) \<noteq> Some (160 * 2 * 2)"
    unfolding t by simp
  have q: "opus_decode stub_lib (calls stereo_world) 4544 [160, 0] 2 160 0
             = (160, replicate 320 0)"
    by code_simp
  have "fst (nativeDecode stub_lib 4544 1 160 stereo_world)
          = Inr (Some (length (jheap stereo_world)))"
    and "length (jheap (snd (nativeDecode stub_lib 4544 1 160 stereo_world))
          ! length (jheap stereo_world)) = nat 160 * 2"
    using decode_drops_channels [OF h a r n c o m] by blast+
  then have d: "fst (nativeDecode stub_lib 4544 1 160 stereo_world) = Inr (Some 2)"
    and e: "length (jheap (snd (nativeDecode stub_lib 4544 1 160 stereo_world)) ! 2) = 160 * 2"
    by (simp_all add: l)
  from f p q d e t u show ?thesis
    by blast
qed

text \<open>
  C9. For a library whose allocator never returns the address of a live instance:
  an init call that the library answers without error and with an instance returns a
  nonzero token; an encoder token and a decoder token created after it, both nonzero,
  are different, whatever the creation parameters; a nonzero token joins the live
  tokens; and after any sequence of calls the live tokens are pairwise different if
  they were before.
\<close>

theorem tokens_unique:
  assumes "allocator_fresh lib"
    and "nativeInitEncoder lib Fs ch app br cx vbr dtx w = (te, we)"
    and "nativeInitDecoder lib Fs' ch' we = (td, wd)"
  shows "(fst (opus_encoder_create lib (calls w) Fs ch app) = OPUS_OK
            \<and> snd (opus_encoder_create lib (calls w) Fs ch app) \<noteq> 0 \<longrightarrow> te \<noteq> 0)
       \<and> (fst (opus_decoder_create lib (calls we) Fs' ch') = OPUS_OK
            \<and> snd (opus_decoder_create lib (calls we) Fs' ch') \<noteq> 0 \<longrightarrow> td \<noteq> 0)
       \<and> (te \<noteq> 0 \<and> td \<noteq> 0 \<longrightarrow> te \<noteq> td)
       \<and> (te \<noteq> 0 \<longrightarrow> live_tokens (calls we) = te # live_tokens (calls w))
       \<and> (td \<noteq> 0 \<longrightarrow> live_tokens (calls wd) = td # live_tokens (calls we))
       \<and> (distinct (live_tokens (calls v)) \<longrightarrow> distinct (live_tokens (calls (run lib cs v))))"
proof -
  obtain error enc where c: "opus_encoder_create lib (calls w) Fs ch app = (error, enc)"
    by (cases "opus_encoder_create lib (calls w) Fs ch app")
  obtain derror dec where d: "opus_decoder_create lib (calls we) Fs' ch' = (derror, dec)"
    by (cases "opus_decoder_create lib (calls we) Fs' ch'")
  have te: "te = fst (nativeInitEncoder lib Fs ch app br cx vbr dtx w)"
    and we: "we = snd (nativeInitEncoder lib Fs ch app br cx vbr dtx w)"
    using assms(2) by simp_all
  have td: "td = fst (nativeInitDecoder lib Fs' ch' we)"
    and wd: "wd = snd (nativeInitDecoder lib Fs' ch' we)"
    using assms(3) by simp_all
  have 1: "error = OPUS_OK \<and> enc \<noteq> 0 \<longrightarrow> te \<noteq> 0"
    by (simp add: te init_encoder_result [OF c])
  have 2: "derror = OPUS_OK \<and> dec \<noteq> 0 \<longrightarrow> td \<noteq> 0"
    by (simp add: td init_decoder_result [OF d])
  have 4: "te \<noteq> 0 \<longrightarrow> live_tokens (calls we) = te # live_tokens (calls w)"
    unfolding te we by (simp add: init_encoder_live)
  have 5: "td \<noteq> 0 \<longrightarrow> live_tokens (calls wd) = td # live_tokens (calls we)"
    unfolding td wd by (simp add: init_decoder_live)
  have "td \<notin> set (live_tokens (calls we))"
    unfolding td by (rule init_decoder_fresh [OF assms(1)])
  with 4 have 3: "te \<noteq> 0 \<and> td \<noteq> 0 \<longrightarrow> te \<noteq> td"
    by auto
  have 6: "distinct (live_tokens (calls v)) \<longrightarrow> distinct (live_tokens (calls (run lib cs v)))"
    using run_live_distinct [OF assms(1)] by blast
  from 1 2 3 4 5 6 show ?thesis by (simp add: c d)
qed

text \<open>Two sessions created with the same parameters, and a sequence of calls that
  releases a token and creates two more sessions.\<close>

theorem tokens_unique_witness:
  "fst (nativeInitEncoder stub_lib 16000 1 2048 16000 5 False True world0) = 4096
   \<and> fst (nativeInitDecoder stub_lib 16000 1
        (snd (nativeInitEncoder stub_lib 16000 1 2048 16000 5 False True world0))) = 4544
   \<and> distinct (live_tokens (calls (run stub_lib
        [ReleaseEncoder 4096, InitEncoder 48000 2 2049 64000 10 True False,
         EncodeFrame 4096 0 160, InitDecoder 48000 2] demo_world)))"
proof -
  let ?e = "nativeInitEncoder stub_lib 16000 1 2048 16000 5 False True world0"
  let ?d = "nativeInitDecoder stub_lib 16000 1 (snd ?e)"
  have e: "fst ?e = 4096" and d: "fst ?d = 4544"
    by code_simp+
  have l: "distinct (live_tokens (calls demo_world))"
    by code_simp
  have u: "fst ?e \<noteq> 0 \<and> fst ?d \<noteq> 0 \<longrightarrow> fst ?e \<noteq> fst ?d"
    and r: "distinct (live_tokens (calls demo_world)) \<longrightarrow>
      distinct (live_tokens (calls (run stub_lib
        [ReleaseEncoder 4096, InitEncoder 48000 2 2049 64000 10 True False,
         EncodeFrame 4096 0 160, InitDecoder 48000 2] demo_world)))"
    using tokens_unique [where lib = stub_lib and w = world0 and te = "fst ?e"
        and we = "snd ?e" and td = "fst ?d" and wd = "snd ?d" and v = demo_world
        and cs = "[ReleaseEncoder 4096, InitEncoder 48000 2 2049 64000 10 True False,
          EncodeFrame 4096 0 160, InitDecoder 48000 2]",
        OF stub_lib_fresh surjective_pairing surjective_pairing]
    by blast+
  from r l e d show ?thesis
    by blast
qed

end
